theory Spec2Isabelle
  imports Main "HOL-Library.Stream"
begin

section \<open>flac\_lyrics.py: the environment\<close>

text \<open>
  The script talks to four collaborators: the file system (\<open>os\<close>, \<open>open\<close>, mutagen's
  \<open>FLAC\<close>), the lrclib service (\<open>requests\<close>), the terminal (\<open>input\<close>, \<open>print\<close>) and
  the clock. They are modelled as fields of one state record that every function takes
  and returns. Each effect that a property talks about is also appended to \<open>trace\<close>,
  so that "no network call is made" or "no write is invoked" is a statement about the
  events a call adds.
\<close>

type_synonym path = string

text \<open>Vorbis comments as mutagen keeps them: a list of (key, value) pairs, keys compared
  without regard to case. A FLAC file without a comment block behaves like the empty list
  for every operation the script uses.\<close>

type_synonym tags = "(string \<times> string) list"

datatype content = Flac_File tags | Text_File string

text \<open>What \<open>os.walk\<close> sees below a root: the sub-directories and the plain files of each
  directory. \<open>No_Dir\<close> is a path on which \<open>scandir\<close> raises \<open>OSError\<close> (missing, not a
  directory, no permission).\<close>

datatype dirtree = No_Dir | Dir "(string \<times> dirtree) list" "string list"

text \<open>The parsed body of an lrclib reply. Field values are strings or \<open>null\<close>, as the
  service documents them.\<close>

datatype json_value = JNull | JString string

datatype json_doc = JObject "string \<rightharpoonup> json_value" | JNonObject

datatype http_body = Body_Json json_doc | Body_Invalid

datatype http_reply = Reply nat http_body

datatype stdin_read = Line string | EOF

datatype exn = OSError | EOFError

datatype event =
    Ev_Get string string
  | Ev_Open_Write path
  | Ev_Save path
  | Ev_Input string
  | Ev_Print string

record state =
  yes_to_all :: bool
  fs :: "path \<rightharpoonup> content"
  dirs :: "path \<Rightarrow> dirtree"
  open_fails :: "path \<Rightarrow> bool"
  save_fails :: "path \<Rightarrow> bool"
  lrclib :: "string \<Rightarrow> string \<Rightarrow> http_reply option"
  stdin :: "stdin_read stream"
  clock :: string
  trace :: "event list"

text \<open>\<open>yes_to_all\<close> is the one-element list \<open>yes_to_all = [False]\<close> that \<open>main\<close> shares with
  \<open>process_file\<close>; the other fields are the environment. \<open>lrclib s artist title = None\<close>
  means that \<open>requests.get\<close> raises (timeout, DNS, refused connection).
  \<open>open_fails\<close> and \<open>save_fails\<close> say for which paths \<open>open(p, "w")\<close> and \<open>audio.save()\<close>
  raise; \<open>stdin\<close> is what each successive \<open>input()\<close> meets, a line or the end of the input;
  \<open>clock\<close> is the time stamp \<open>datetime.now().strftime(...)\<close> gives. Only the program
  changes the state: the files, the service and the directory tree do not change on
  their own during a run.\<close>

record args =
  directory :: path
  force :: bool
  prompt :: bool
  dry_run :: bool
  log_file :: "string option"

subsection \<open>Strings\<close>

text \<open>\<open>str.lower\<close>, \<open>str.strip\<close> and \<open>str.endswith\<close> on ASCII text: the letters \<open>A\<close> to \<open>Z\<close> are
  lowered, the white space of \<open>strip\<close> is the ASCII white space of Python. The three answers
  and the suffix \<open>.flac\<close> that the script compares against are ASCII.\<close>

definition lower_char :: "char \<Rightarrow> char" where
  "lower_char c =
     (case map_of (zip ''ABCDEFGHIJKLMNOPQRSTUVWXYZ'' ''abcdefghijklmnopqrstuvwxyz'') c of
        None \<Rightarrow> c | Some d \<Rightarrow> d)"

definition lower :: "string \<Rightarrow> string" where
  "lower s = map lower_char s"

definition is_space :: "char \<Rightarrow> bool" where
  "is_space c = (c \<in> set [CHR '' '', CHR 0x09, CHR 0x0A, CHR 0x0B, CHR 0x0C, CHR 0x0D,
                           CHR 0x1C, CHR 0x1D, CHR 0x1E, CHR 0x1F])"

definition strip :: "string \<Rightarrow> string" where
  "strip s = rev (dropWhile is_space (rev (dropWhile is_space s)))"

definition endswith :: "string \<Rightarrow> string \<Rightarrow> bool" where
  "endswith s suffix = (length suffix \<le> length s \<and> drop (length s - length suffix) s = suffix)"

definition startswith :: "string \<Rightarrow> string \<Rightarrow> bool" where
  "startswith s pre = (take (length pre) s = pre)"

fun join_lines :: "string list \<Rightarrow> string" where
  "join_lines [] = []"
| "join_lines [l] = l"
| "join_lines (l # ls) = l @ [CHR 0x0A] @ join_lines ls"

subsection \<open>Paths (posixpath)\<close>

fun rfind_from :: "string \<Rightarrow> char \<Rightarrow> int \<Rightarrow> int \<Rightarrow> int" where
  "rfind_from [] c i found = found"
| "rfind_from (x # xs) c i found = rfind_from xs c (i + 1) (if x = c then i else found)"

definition rfind :: "string \<Rightarrow> char \<Rightarrow> int" where
  "rfind p c = rfind_from p c 0 (- 1)"

text \<open>\<open>os.path.splitext\<close>: the extension starts at the last dot of the last path component,
  unless that component has only dots in front of it.\<close>

definition splitext :: "path \<Rightarrow> path \<times> string" where
  "splitext p =
     (let sepIndex = rfind p CHR ''/'';
          dotIndex = rfind p CHR ''.''
      in if dotIndex > sepIndex \<and>
            list_ex (\<lambda>c. c \<noteq> CHR ''.'')
              (take (nat (dotIndex - (sepIndex + 1))) (drop (nat (sepIndex + 1)) p))
         then (take (nat dotIndex) p, drop (nat dotIndex) p)
         else (p, []))"

definition path_join :: "path \<Rightarrow> string \<Rightarrow> path" where
  "path_join a b =
     (if startswith b ''/'' then b
      else if a = [] \<or> endswith a ''/'' then a @ b
      else a @ ''/'' @ b)"

definition lrc_path_of :: "path \<Rightarrow> path" where
  "lrc_path_of music_file = fst (splitext music_file) @ ''.lrc''"

subsection \<open>Primitive effects\<close>

definition emit :: "event \<Rightarrow> state \<Rightarrow> state" where
  "emit e s = s\<lparr>trace := trace s @ [e]\<rparr>"

definition py_print :: "string \<Rightarrow> state \<Rightarrow> state" where
  "py_print line s = emit (Ev_Print line) s"

text \<open>\<open>input(prompt)\<close>: writes the prompt, then reads one line or raises \<open>EOFError\<close>.\<close>

definition py_input :: "string \<Rightarrow> state \<Rightarrow> (exn + string) \<times> state" where
  "py_input p s =
     (case shd (stdin s) of
        EOF \<Rightarrow> (Inl EOFError, emit (Ev_Input p) s)
      | Line l \<Rightarrow> (Inr l, (emit (Ev_Input p) s)\<lparr>stdin := stl (stdin s)\<rparr>))"

definition path_exists :: "state \<Rightarrow> path \<Rightarrow> bool" where
  "path_exists s p = (fs s p \<noteq> None)"

text \<open>\<open>with open(p, "w", encoding="utf-8") as f: f.write(text)\<close>\<close>

definition open_write :: "path \<Rightarrow> string \<Rightarrow> state \<Rightarrow> (exn + unit) \<times> state" where
  "open_write p text s =
     (if open_fails s p then (Inl OSError, emit (Ev_Open_Write p) s)
      else (Inr (), (emit (Ev_Open_Write p) s)\<lparr>fs := (fs s)(p \<mapsto> Text_File text)\<rparr>))"

text \<open>\<open>FLAC(path)\<close>: the comments of a parseable FLAC file, or an exception.\<close>

definition open_flac :: "state \<Rightarrow> path \<Rightarrow> tags option" where
  "open_flac s p = (case fs s p of Some (Flac_File t) \<Rightarrow> Some t | _ \<Rightarrow> None)"

definition flac_save :: "path \<Rightarrow> tags \<Rightarrow> state \<Rightarrow> (exn + unit) \<times> state" where
  "flac_save p t s =
     (if save_fails s p then (Inl OSError, emit (Ev_Save p) s)
      else (Inr (), (emit (Ev_Save p) s)\<lparr>fs := (fs s)(p \<mapsto> Flac_File t)\<rparr>))"

text \<open>mutagen's dictionary interface on the comments: \<open>audio[key]\<close> is the list of the
  values stored under the key and raises \<open>KeyError\<close> when there is none.\<close>

definition vc_values :: "tags \<Rightarrow> string \<Rightarrow> string list" where
  "vc_values t key = map snd (filter (\<lambda>kv. lower (fst kv) = lower key) t)"

definition vc_contains :: "tags \<Rightarrow> string \<Rightarrow> bool" where
  "vc_contains t key = (vc_values t key \<noteq> [])"

text \<open>\<open>audio.get(key, [None])[0]\<close>\<close>

definition vc_first :: "tags \<Rightarrow> string \<Rightarrow> string option" where
  "vc_first t key = (case vc_values t key of [] \<Rightarrow> None | v # _ \<Rightarrow> Some v)"

text \<open>\<open>audio[key] = value\<close>\<close>

definition vc_set :: "tags \<Rightarrow> string \<Rightarrow> string \<Rightarrow> tags" where
  "vc_set t key v = filter (\<lambda>kv. lower (fst kv) \<noteq> lower key) t @ [(key, v)]"

text \<open>Python truthiness of \<open>data.get(key)\<close> and of an optional string.\<close>

definition json_truthy :: "json_value option \<Rightarrow> bool" where
  "json_truthy v = (case v of Some (JString x) \<Rightarrow> x \<noteq> [] | _ \<Rightarrow> False)"

definition json_text :: "json_value option \<Rightarrow> string" where
  "json_text v = (case v of Some (JString x) \<Rightarrow> x | _ \<Rightarrow> [])"

definition truthy :: "string option \<Rightarrow> bool" where
  "truthy v = (case v of None \<Rightarrow> False | Some x \<Rightarrow> x \<noteq> [])"

fun os_walk :: "path \<Rightarrow> dirtree \<Rightarrow> (path \<times> string list \<times> string list) list" where
  "os_walk root No_Dir = []"
| "os_walk root (Dir subdirs files) =
     (root, map fst subdirs, files) #
     concat (map (\<lambda>d. os_walk (path_join root (fst d)) (snd d)) subdirs)"

section \<open>flac\_lyrics.py: the program\<close>

subsection \<open>fetch\_lyrics\<close>

definition fetch_lyrics :: "string \<Rightarrow> string \<Rightarrow> state \<Rightarrow> string option \<times> state" where
  "fetch_lyrics artist title s =
     (let s1 = emit (Ev_Get artist title) s in
      case lrclib s artist title of
        None \<Rightarrow> (None, s1)
      | Some (Reply status_code body) \<Rightarrow>
          if status_code = 200 then
            (case body of
               Body_Invalid \<Rightarrow> (None, s1)
             | Body_Json JNonObject \<Rightarrow> (None, s1)
             | Body_Json (JObject data) \<Rightarrow>
                 if json_truthy (data ''syncedLyrics'') then
                   (Some (json_text (data ''syncedLyrics'')), s1)
                 else if json_truthy (data ''plainLyrics'') then
                   (Some (json_text (data ''plainLyrics'')), s1)
                 else (None, s1))
          else (None, s1))"

subsection \<open>write\_lrc\_file and embed\_lyrics\_flac\<close>

definition write_lrc_file :: "path \<Rightarrow> string \<Rightarrow> bool \<Rightarrow> state \<Rightarrow> (exn + bool) \<times> state" where
  "write_lrc_file music_file lyrics frc s =
     (let lrc_path = lrc_path_of music_file in
      if path_exists s lrc_path \<and> \<not> frc then (Inr False, s)
      else case open_write lrc_path lyrics s of
             (Inl e, s1) \<Rightarrow> (Inl e, s1)
           | (Inr u, s1) \<Rightarrow> (Inr True, s1))"

definition embed_lyrics_flac :: "path \<Rightarrow> string \<Rightarrow> bool \<Rightarrow> state \<Rightarrow> bool \<times> state" where
  "embed_lyrics_flac music_file lyrics frc s =
     (case open_flac s music_file of
        None \<Rightarrow> (False, s)
      | Some audio \<Rightarrow>
          if vc_contains audio ''LYRICS'' \<and> \<not> frc then (False, s)
          else case flac_save music_file (vc_set audio ''LYRICS'' lyrics) s of
                 (Inl e, s1) \<Rightarrow> (False, s1)
               | (Inr u, s1) \<Rightarrow> (True, s1))"

subsection \<open>process\_file\<close>

definition prompt_text :: "string \<Rightarrow> string \<Rightarrow> string" where
  "prompt_text artist title =
     ''Update lyrics for '' @ [CHR 0x27] @ artist @ '' - '' @ title @ [CHR 0x27] @ ''? [y/n/a] ''"

definition retry_text :: string where
  "retry_text = ''Please type y (yes), n (no), or a (yes to all).''"

text \<open>How the \<open>while True\<close> loop is left: by \<open>break\<close>, or by returning from
  \<open>process_file\<close>.\<close>

datatype loop_exit = Break | Return "path \<times> string"

partial_function (option) prompt_loop ::
  "path \<Rightarrow> string \<Rightarrow> string \<Rightarrow> state \<Rightarrow> ((exn + loop_exit) \<times> state) option" where
  "prompt_loop path artist title s =
     (case py_input (prompt_text artist title) s of
        (Inl e, s1) \<Rightarrow> Some (Inl e, s1)
      | (Inr line, s1) \<Rightarrow>
          (let ans = lower (strip line) in
           if ans = ''a'' then Some (Inr Break, s1\<lparr>yes_to_all := True\<rparr>)
           else if ans = ''y'' then Some (Inr Break, s1)
           else if ans = ''n'' then Some (Inr (Return (path, ''skipped_prompt'')), s1)
           else prompt_loop path artist title (py_print retry_text s1)))"

text \<open>Lines 137 to 146: the dry-run return and the two writes.\<close>

definition write_stage ::
  "path \<Rightarrow> args \<Rightarrow> string \<Rightarrow> state \<Rightarrow> (exn + path \<times> string) \<times> state" where
  "write_stage path a lyrics s =
     (if dry_run a then (Inr (path, ''dry_run''), s)
      else case write_lrc_file path lyrics (force a) s of
             (Inl e, s1) \<Rightarrow> (Inl e, s1)
           | (Inr wrote_file, s1) \<Rightarrow>
               (case embed_lyrics_flac path lyrics (force a) s1 of
                  (wrote_tag, s2) \<Rightarrow>
                    if wrote_file \<or> wrote_tag then (Inr (path, ''updated''), s2)
                    else (Inr (path, ''skipped_existing''), s2)))"

text \<open>Lines 123 to 146: the prompt, then the write stage.\<close>

definition prompt_stage ::
  "path \<Rightarrow> args \<Rightarrow> string \<Rightarrow> string \<Rightarrow> string \<Rightarrow> state \<Rightarrow>
     ((exn + path \<times> string) \<times> state) option" where
  "prompt_stage path a artist title lyrics s =
     (if prompt a \<and> \<not> yes_to_all s then
        (case prompt_loop path artist title s of
           None \<Rightarrow> None
         | Some (Inl e, s1) \<Rightarrow> Some (Inl e, s1)
         | Some (Inr (Return r), s1) \<Rightarrow> Some (Inr r, s1)
         | Some (Inr Break, s1) \<Rightarrow> Some (write_stage path a lyrics s1))
      else Some (write_stage path a lyrics s))"

definition process_file ::
  "path \<Rightarrow> args \<Rightarrow> state \<Rightarrow> ((exn + path \<times> string) \<times> state) option" where
  "process_file path a s =
     (case open_flac s path of
        None \<Rightarrow> Some (Inr (path, ''error''), s)
      | Some audio \<Rightarrow>
          (let artist = vc_first audio ''artist'';
               title = vc_first audio ''title''
           in if \<not> truthy artist \<or> \<not> truthy title then Some (Inr (path, ''missing_tags''), s)
              else
                (let lrc_path = lrc_path_of path;
                     has_lrc = path_exists s lrc_path;
                     has_tag = vc_contains audio ''LYRICS''
                 in if (has_lrc \<or> has_tag) \<and> \<not> force a \<and> \<not> prompt a
                    then Some (Inr (path, ''skipped_existing''), s)
                    else
                      (case fetch_lyrics (the artist) (the title) s of
                         (lyrics, s1) \<Rightarrow>
                           if \<not> truthy lyrics then Some (Inr (path, ''not_found''), s1)
                           else prompt_stage path a (the artist) (the title) (the lyrics) s1))))"

subsection \<open>main\<close>

definition is_flac_name :: "string \<Rightarrow> bool" where
  "is_flac_name f = endswith (lower f) ''.flac''"

definition candidates :: "(path \<times> string list \<times> string list) list \<Rightarrow> path list" where
  "candidates walk =
     concat (map (\<lambda>(root, ds, files). map (path_join root) (filter is_flac_name files)) walk)"

text \<open>The body of the two nested \<open>for\<close> loops, run over the files in the order in which
  \<open>os.walk\<close> yields them. An exception leaves the loops; a prompt that never ends keeps
  the whole run from returning.\<close>

fun process_all ::
  "args \<Rightarrow> path list \<Rightarrow> string list \<Rightarrow> state \<Rightarrow> ((exn + string list) \<times> state) option" where
  "process_all a [] log_lines s = Some (Inr log_lines, s)"
| "process_all a (full_path # rest) log_lines s =
     (case process_file full_path a (py_print (''Processing: '' @ full_path) s) of
        None \<Rightarrow> None
      | Some (Inl e, s1) \<Rightarrow> Some (Inl e, s1)
      | Some (Inr status, s1) \<Rightarrow>
          process_all a rest (log_lines @ [fst status @ '': '' @ snd status])
            (py_print (''  -> '' @ snd status) s1))"

definition write_log :: "args \<Rightarrow> string list \<Rightarrow> state \<Rightarrow> (exn + unit) \<times> state" where
  "write_log a log_lines s =
     (if truthy (log_file a) then
        (let filename =
               (if log_file a = Some ''AUTO'' then ''lyrics_log_'' @ clock s @ ''.txt''
                else the (log_file a))
         in case open_write filename (join_lines log_lines) s of
              (Inl e, s1) \<Rightarrow> (Inl e, s1)
            | (Inr u, s1) \<Rightarrow>
                (Inr (), py_print ([CHR 0x0A] @ ''Log written to '' @ filename) s1))
      else (Inr (), s))"

definition main :: "args \<Rightarrow> state \<Rightarrow> ((exn + unit) \<times> state) option" where
  "main a s0 =
     (let s = s0\<lparr>yes_to_all := False\<rparr> in
      case process_all a (candidates (os_walk (directory a) (dirs s (directory a)))) [] s of
        None \<Rightarrow> None
      | Some (Inl e, s1) \<Rightarrow> Some (Inl e, s1)
      | Some (Inr log_lines, s1) \<Rightarrow>
          Some (write_log a log_lines
                  (fold py_print log_lines (py_print ([CHR 0x0A] @ ''--- Summary ---'') s1))))"

text \<open>The exit status of the interpreter: 0 when \<open>main\<close> returns, 1 when an exception
  reaches the top level.\<close>

definition exit_status :: "(exn + unit) \<Rightarrow> nat" where
  "exit_status r = (case r of Inl e \<Rightarrow> 1 | Inr u \<Rightarrow> 0)"

section \<open>Vocabulary of the properties\<close>

text \<open>The answer the prompt loop compares against \<open>"a"\<close>, \<open>"y"\<close> and \<open>"n"\<close>, and the
  answers that leave the loop.\<close>

definition answer_of :: "string \<Rightarrow> string" where
  "answer_of line = lower (strip line)"

definition accepted :: "string \<Rightarrow> bool" where
  "accepted line = (answer_of line = ''a'' \<or> answer_of line = ''y'' \<or> answer_of line = ''n'')"


text \<open>The state after one successful \<open>input(p)\<close>, and after one rejected answer.\<close>

definition read_line :: "string \<Rightarrow> state \<Rightarrow> state" where
  "read_line p s = (emit (Ev_Input p) s)\<lparr>stdin := stl (stdin s)\<rparr>"

definition reprompt :: "string \<Rightarrow> string \<Rightarrow> state \<Rightarrow> state" where
  "reprompt artist title s = py_print retry_text (read_line (prompt_text artist title) s)"

fun is_write :: "event \<Rightarrow> bool" where
  "is_write (Ev_Open_Write p) = True"
| "is_write (Ev_Save p) = True"
| "is_write e = False"

fun is_input :: "event \<Rightarrow> bool" where
  "is_input (Ev_Input p) = True"
| "is_input e = False"

fun is_get :: "event \<Rightarrow> bool" where
  "is_get (Ev_Get artist title) = True"
| "is_get e = False"

text \<open>The tags of a file as \<open>process_file\<close> reads them: both required tags are there and
  not empty.\<close>

definition tagged :: "state \<Rightarrow> path \<Rightarrow> tags \<Rightarrow> string \<Rightarrow> string \<Rightarrow> bool" where
  "tagged s path audio artist title =
     (open_flac s path = Some audio \<and>
      vc_first audio ''artist'' = Some artist \<and> artist \<noteq> [] \<and>
      vc_first audio ''title'' = Some title \<and> title \<noteq> [])"

subsection \<open>A small library\<close>

text \<open>One directory \<open>/m\<close> with one file tagged \<open>artist=Foo\<close>, \<open>title=Bar\<close>; the service
  knows synced lyrics for it, plain lyrics for a second title, cannot be reached for a
  third and answers 404 for everything else; nobody is at the terminal.\<close>

definition demo_tags :: tags where
  "demo_tags = [(''ARTIST'', ''Foo''), (''TITLE'', ''Bar'')]"

definition demo_lyrics :: string where
  "demo_lyrics = ''[00:01.00]La la''"

definition demo_service :: "string \<Rightarrow> string \<Rightarrow> http_reply option" where
  "demo_service artist title =
     (if artist = ''Foo'' \<and> title = ''Bar''
      then Some (Reply 200 (Body_Json (JObject [''syncedLyrics'' \<mapsto> JString demo_lyrics])))
      else if artist = ''Foo'' \<and> title = ''Plain''
      then Some (Reply 200 (Body_Json (JObject [''syncedLyrics'' \<mapsto> JNull,
                                                ''plainLyrics'' \<mapsto> JString ''La la''])))
      else if artist = ''Foo'' \<and> title = ''Down'' then None
      else Some (Reply 404 Body_Invalid))"

definition demo_state :: state where
  "demo_state =
     \<lparr>yes_to_all = False,
      fs = [''/m/a.flac'' \<mapsto> Flac_File demo_tags],
      dirs = (\<lambda>p. if p = ''/m'' then Dir [] [''a.flac''] else No_Dir),
      open_fails = (\<lambda>p. False),
      save_fails = (\<lambda>p. False),
      lrclib = demo_service,
      stdin = sconst EOF,
      clock = ''2026-01-01_00-00-00'',
      trace = []\<rparr>"

definition demo_args :: args where
  "demo_args = \<lparr>directory = ''/m'', force = False, prompt = False, dry_run = False,
                 log_file = None\<rparr>"

text \<open>The same library with a sidecar file next to the audio file.\<close>

definition demo_with_sidecar :: state where
  "demo_with_sidecar = demo_state\<lparr>fs := (fs demo_state)(''/m/a.lrc'' \<mapsto> Text_File ''old'')\<rparr>"



text \<open>The library on a volume where no sidecar can be created.\<close>

definition demo_readonly :: state where
  "demo_readonly = demo_state\<lparr>open_fails := (\<lambda>p. p = ''/m/a.lrc'')\<rparr>"



text \<open>Two tagged files and somebody who answers "a" once.\<close>

definition demo_two :: state where
  "demo_two = demo_state
     \<lparr>fs := [''/m/a.flac'' \<mapsto> Flac_File demo_tags, ''/m/b.flac'' \<mapsto> Flac_File demo_tags],
      dirs := (\<lambda>p. if p = ''/m'' then Dir [] [''a.flac'', ''b.flac''] else No_Dir),
      stdin := Line ''a'' ## sconst EOF\<rparr>"

text \<open>The library with the file carrying an empty LYRICS tag.\<close>

definition demo_empty_lyrics :: state where
  "demo_empty_lyrics =
     demo_state\<lparr>fs := [''/m/a.flac'' \<mapsto> Flac_File (demo_tags @ [(''LYRICS'', [])])]\<rparr>"

text \<open>The first line of the summary that \<open>main\<close> prints.\<close>

definition summary_header :: string where
  "summary_header = [CHR 0x0A] @ ''--- Summary ---''"



section \<open>Basic facts\<close>

lemmas str_defs = lower_def lower_char_def strip_def is_space_def endswith_def startswith_def
  lrc_path_of_def splitext_def rfind_def path_join_def answer_of_def accepted_def

lemmas vc_defs = vc_values_def vc_contains_def vc_first_def vc_set_def open_flac_def
  path_exists_def truthy_def json_truthy_def json_text_def tagged_def

lemmas eff_defs = Let_def emit_def py_print_def py_input_def open_write_def flac_save_def
  read_line_def reprompt_def

lemmas prog_defs = process_file_def fetch_lyrics_def prompt_stage_def write_stage_def
  write_lrc_file_def embed_lyrics_flac_def main_def candidates_def is_flac_name_def
  write_log_def exit_status_def

lemmas demo_defs = demo_state_def demo_args_def demo_tags_def demo_lyrics_def demo_service_def
  demo_with_sidecar_def

lemma emit_fields [simp]:
  "yes_to_all (emit e s) = yes_to_all s" "fs (emit e s) = fs s" "dirs (emit e s) = dirs s"
  "open_fails (emit e s) = open_fails s" "save_fails (emit e s) = save_fails s"
  "lrclib (emit e s) = lrclib s" "stdin (emit e s) = stdin s" "clock (emit e s) = clock s"
  "trace (emit e s) = trace s @ [e]"
  by (simp_all add: emit_def)

lemma py_print_fields [simp]:
  "yes_to_all (py_print l s) = yes_to_all s" "fs (py_print l s) = fs s"
  "dirs (py_print l s) = dirs s"
  "open_fails (py_print l s) = open_fails s" "save_fails (py_print l s) = save_fails s"
  "lrclib (py_print l s) = lrclib s" "stdin (py_print l s) = stdin s"
  "clock (py_print l s) = clock s"
  "trace (py_print l s) = trace s @ [Ev_Print l]"
  by (simp_all add: py_print_def)

lemma read_line_fields [simp]:
  "yes_to_all (read_line p s) = yes_to_all s" "fs (read_line p s) = fs s"
  "dirs (read_line p s) = dirs s"
  "open_fails (read_line p s) = open_fails s" "save_fails (read_line p s) = save_fails s"
  "lrclib (read_line p s) = lrclib s" "stdin (read_line p s) = stl (stdin s)"
  "clock (read_line p s) = clock s"
  "trace (read_line p s) = trace s @ [Ev_Input p]"
  by (simp_all add: read_line_def)

lemma reprompt_fields [simp]:
  "yes_to_all (reprompt ar ti s) = yes_to_all s" "fs (reprompt ar ti s) = fs s"
  "dirs (reprompt ar ti s) = dirs s"
  "open_fails (reprompt ar ti s) = open_fails s" "save_fails (reprompt ar ti s) = save_fails s"
  "lrclib (reprompt ar ti s) = lrclib s" "stdin (reprompt ar ti s) = stl (stdin s)"
  "clock (reprompt ar ti s) = clock s"
  "trace (reprompt ar ti s) = trace s @ [Ev_Input (prompt_text ar ti), Ev_Print retry_text]"
  by (simp_all add: reprompt_def)

lemma py_input_Line: "shd (stdin s) = Line l \<Longrightarrow> py_input p s = (Inr l, read_line p s)"
  by (simp add: py_input_def read_line_def)



lemma prompt_loop_a:
  "shd (stdin s) = Line l \<Longrightarrow> answer_of l = ''a'' \<Longrightarrow>
   prompt_loop path ar ti s =
     Some (Inr Break, (read_line (prompt_text ar ti) s)\<lparr>yes_to_all := True\<rparr>)"
  by (subst prompt_loop.simps) (simp add: py_input_Line answer_of_def)









section \<open>The fetcher\<close>

lemma fetch_lyrics_state: "snd (fetch_lyrics artist title s) = emit (Ev_Get artist title) s"
  by (simp add: fetch_lyrics_def Let_def split: option.splits http_reply.splits http_body.splits
      json_doc.splits)



section \<open>The early skip\<close>

text \<open>
  Claim C6. For every file whose artist and title can be read and are not empty, for which
  a sidecar file or a LYRICS tag already exists, with \<open>force\<close> and \<open>prompt\<close> both off,
  \<open>process_file\<close> returns \<open>skipped_existing\<close> and leaves the state as it was: no request is
  sent, nothing is written, nothing is printed or read.
\<close>

theorem early_skip_no_fetch:
  assumes "tagged s path audio artist title"
    and "path_exists s (lrc_path_of path) \<or> vc_contains audio ''LYRICS''"
    and "\<not> force a" and "\<not> prompt a"
  shows "process_file path a s = Some (Inr (path, ''skipped_existing''), s)"
  using assms by (auto simp: process_file_def tagged_def truthy_def Let_def)

theorem early_skip_no_fetch_witness:
  "tagged demo_with_sidecar ''/m/a.flac'' demo_tags ''Foo'' ''Bar'' \<and>
   path_exists demo_with_sidecar (lrc_path_of ''/m/a.flac'') \<and>
   \<not> force demo_args \<and> \<not> prompt demo_args \<and>
   process_file ''/m/a.flac'' demo_args demo_with_sidecar =
     Some (Inr (''/m/a.flac'', ''skipped_existing''), demo_with_sidecar)"
proof -
  have t: "tagged demo_with_sidecar ''/m/a.flac'' demo_tags ''Foo'' ''Bar''"
    by (simp add: demo_defs vc_defs str_defs)
  have e: "path_exists demo_with_sidecar (lrc_path_of ''/m/a.flac'')"
    by (simp add: demo_defs vc_defs str_defs)
  have f: "\<not> force demo_args" and p: "\<not> prompt demo_args"
    by (simp_all add: demo_defs)
  from early_skip_no_fetch [OF t disjI1 [OF e] f p] t e f p show ?thesis
    by simp
qed

section \<open>The prompt loop\<close>


lemma reprompts_fields [simp]:
  "yes_to_all ((reprompt ar ti ^^ n) s) = yes_to_all s"
  "fs ((reprompt ar ti ^^ n) s) = fs s"
  "dirs ((reprompt ar ti ^^ n) s) = dirs s"
  "open_fails ((reprompt ar ti ^^ n) s) = open_fails s"
  "save_fails ((reprompt ar ti ^^ n) s) = save_fails s"
  "lrclib ((reprompt ar ti ^^ n) s) = lrclib s"
  "clock ((reprompt ar ti ^^ n) s) = clock s"
  by (induction n) simp_all













section \<open>The two writers\<close>

lemma write_lrc_file_skip:
  "path_exists s (lrc_path_of p) \<Longrightarrow> \<not> f \<Longrightarrow> write_lrc_file p l f s = (Inr False, s)"
  by (simp add: write_lrc_file_def Let_def)

lemma write_lrc_file_raise:
  "\<not> path_exists s (lrc_path_of p) \<or> f \<Longrightarrow> open_fails s (lrc_path_of p) \<Longrightarrow>
   write_lrc_file p l f s = (Inl OSError, emit (Ev_Open_Write (lrc_path_of p)) s)"
  by (auto simp: write_lrc_file_def open_write_def Let_def)

lemma write_lrc_file_ok:
  "\<not> path_exists s (lrc_path_of p) \<or> f \<Longrightarrow> \<not> open_fails s (lrc_path_of p) \<Longrightarrow>
   write_lrc_file p l f s =
     (Inr True, (emit (Ev_Open_Write (lrc_path_of p)) s)
                  \<lparr>fs := (fs s)(lrc_path_of p \<mapsto> Text_File l)\<rparr>)"
  by (auto simp: write_lrc_file_def open_write_def Let_def)

lemma embed_lyrics_flac_unreadable:
  "open_flac s p = None \<Longrightarrow> embed_lyrics_flac p l f s = (False, s)"
  by (simp add: embed_lyrics_flac_def)

lemma embed_lyrics_flac_skip:
  "open_flac s p = Some audio \<Longrightarrow> vc_contains audio ''LYRICS'' \<Longrightarrow> \<not> f \<Longrightarrow>
   embed_lyrics_flac p l f s = (False, s)"
  by (simp add: embed_lyrics_flac_def)

lemma embed_lyrics_flac_save_fails:
  "open_flac s p = Some audio \<Longrightarrow> \<not> vc_contains audio ''LYRICS'' \<or> f \<Longrightarrow> save_fails s p \<Longrightarrow>
   embed_lyrics_flac p l f s = (False, emit (Ev_Save p) s)"
  by (auto simp: embed_lyrics_flac_def flac_save_def)

lemma embed_lyrics_flac_ok:
  "open_flac s p = Some audio \<Longrightarrow> \<not> vc_contains audio ''LYRICS'' \<or> f \<Longrightarrow> \<not> save_fails s p \<Longrightarrow>
   embed_lyrics_flac p l f s =
     (True, (emit (Ev_Save p) s)\<lparr>fs := (fs s)(p \<mapsto> Flac_File (vc_set audio ''LYRICS'' l))\<rparr>)"
  by (auto simp: embed_lyrics_flac_def flac_save_def)

text \<open>What decides the embedded write is untouched by the sidecar write, as long as the
  sidecar is another file than the audio file.\<close>

lemma embed_after_sidecar:
  assumes "lrc_path_of p \<noteq> p" and "write_lrc_file p l f s = (r, s1)"
  shows "fst (embed_lyrics_flac p l' f' s1) = fst (embed_lyrics_flac p l' f' s)"
proof -
  from assms(2) have "save_fails s1 = save_fails s \<and> fs s1 p = fs s p"
    using assms(1)
    by (auto simp: write_lrc_file_def open_write_def Let_def split: if_splits)
  then show ?thesis
    by (simp add: embed_lyrics_flac_def open_flac_def flac_save_def
        split: option.splits content.splits)
qed

lemma endswith_append: "endswith ys suffix \<Longrightarrow> endswith (xs @ ys) suffix"
  by (auto simp: endswith_def)

lemma lower_append: "lower (xs @ ys) = lower xs @ lower ys"
  by (simp add: lower_def)

lemma path_join_suffix: "\<exists>pre. path_join root f = pre @ f"
  by (auto simp: path_join_def intro: exI [of _ "[]"] exI [of _ "root @ ''/''"])

lemma is_flac_name_path_join:
  assumes "is_flac_name f"
  shows "is_flac_name (path_join root f)"
proof -
  obtain pre where "path_join root f = pre @ f"
    using path_join_suffix by blast
  with assms show ?thesis
    by (simp add: is_flac_name_def lower_append endswith_append)
qed

lemma candidates_flac: "p \<in> set (candidates walk) \<Longrightarrow> is_flac_name p"
  by (auto simp: candidates_def is_flac_name_path_join)

text \<open>The sidecar of a file that \<open>main\<close> selects is never the file itself.\<close>

lemma flac_name_not_lrc:
  assumes "is_flac_name p"
  shows "lrc_path_of p \<noteq> p"
proof
  assume eq: "lrc_path_of p = p"
  define x where "x = fst (splitext p)"
  from eq have p: "p = x @ ''.lrc''"
    by (simp add: lrc_path_of_def x_def)
  have low: "lower p = lower x @ ''.lrc''"
    by (subst p) (simp add: lower_def lower_char_def)
  have len: "length (lower x) = length x"
    by (simp add: lower_def)
  from assms have five: "5 \<le> length (lower p)"
    and suffix: "drop (length (lower p) - 5) (lower p) = ''.flac''"
    by (simp_all add: is_flac_name_def endswith_def eval_nat_numeral)
  from five have "Suc (length x - Suc 0) = length x"
    by (simp add: low len)
  then have "drop 1 (drop (length (lower p) - 5) (lower p)) = ''.lrc''"
    by (simp add: low len)
  with suffix show False by simp
qed


section \<open>The stages of process\_file\<close>




lemma process_file_fetch:
  assumes "tagged s path audio artist title"
    and "\<not> ((path_exists s (lrc_path_of path) \<or> vc_contains audio ''LYRICS'') \<and>
            \<not> force a \<and> \<not> prompt a)"
  shows "process_file path a s =
    (if truthy (fst (fetch_lyrics artist title s))
     then prompt_stage path a artist title (the (fst (fetch_lyrics artist title s)))
            (emit (Ev_Get artist title) s)
     else Some (Inr (path, ''not_found''), emit (Ev_Get artist title) s))"
proof -
  from assms(1) have t: "open_flac s path = Some audio"
    "vc_first audio ''artist'' = Some artist" "vc_first audio ''title'' = Some title"
    "truthy (Some artist)" "truthy (Some title)"
    by (simp_all add: tagged_def truthy_def)
  show ?thesis
    using t assms(2)
    by (auto simp: process_file_def Let_def case_prod_beta fetch_lyrics_state)
qed





lemma prompt_stage_no_prompt:
  "\<not> prompt a \<or> yes_to_all s \<Longrightarrow>
   prompt_stage path a artist title lyrics s = Some (write_stage path a lyrics s)"
  by (auto simp: prompt_stage_def)




lemma process_file_early_skip:
  "tagged s path audio artist title \<Longrightarrow>
   (path_exists s (lrc_path_of path) \<or> vc_contains audio ''LYRICS'') \<and>
     \<not> force a \<and> \<not> prompt a \<Longrightarrow>
   process_file path a s = Some (Inr (path, ''skipped_existing''), s)"
  by (auto simp: process_file_def tagged_def truthy_def Let_def)


lemma no_get_reprompts:
  "list_all (\<lambda>e. \<not> is_get e) (concat (replicate n [Ev_Input p, Ev_Print t]))"
  by (induction n) simp_all




section \<open>Dry runs\<close>





section \<open>Prompt mode\<close>







section \<open>Yes to all\<close>










text \<open>The whole run on two files with the single answer "a": one prompt, both files
  updated.\<close>

lemma demo_two_run:
  "map_option fst (main (demo_args\<lparr>prompt := True\<rparr>) demo_two) = Some (Inr ()) \<and>
   map_option (\<lambda>r. filter is_input (trace (snd r))) (main (demo_args\<lparr>prompt := True\<rparr>) demo_two) =
     Some [Ev_Input (prompt_text ''Foo'' ''Bar'')]"
  by (simp add: prog_defs demo_two_def demo_defs str_defs vc_defs eff_defs prompt_loop_a prompt_text_def)

section \<open>A sidecar that cannot be written\<close>

text \<open>
  Claim C2 says that an I/O error raised while the sidecar is written is caught in the
  writer, counts as "not written", and lets the embedded write and the run go on.
  \<open>write_lrc_file\<close> has no handler (\<open>embed_lyrics_flac\<close> has one): the error leaves
  \<open>write_lrc_file\<close>, \<open>process_file\<close> and the loop of \<open>main\<close>. The theorem states what the
  code does: for a file that reaches the write stage without a prompt, whose sidecar is
  due and cannot be opened, \<open>process_file\<close> ends with \<open>OSError\<close> after the request and the
  failed \<open>open\<close>, no \<open>save\<close> is attempted, and the loop of \<open>main\<close> ends with the same error
  whatever files remain.
\<close>

theorem sidecar_failure_propagates:
  assumes "tagged s path audio artist title"
    and "\<not> ((path_exists s (lrc_path_of path) \<or> vc_contains audio ''LYRICS'') \<and>
            \<not> force a \<and> \<not> prompt a)"
    and "truthy (fst (fetch_lyrics artist title s))"
    and "\<not> prompt a \<or> yes_to_all s"
    and "\<not> dry_run a"
    and "\<not> path_exists s (lrc_path_of path) \<or> force a"
    and "open_fails s (lrc_path_of path)"
  shows "process_file path a s =
           Some (Inl OSError,
                 emit (Ev_Open_Write (lrc_path_of path)) (emit (Ev_Get artist title) s)) \<and>
         (\<forall>s0 rest log_lines. s = py_print (''Processing: '' @ path) s0 \<longrightarrow>
            process_all a (path # rest) log_lines s0 =
              Some (Inl OSError,
                    emit (Ev_Open_Write (lrc_path_of path)) (emit (Ev_Get artist title) s)))"
proof -
  define s0 where "s0 = emit (Ev_Get artist title) s"
  have "write_lrc_file path (the (fst (fetch_lyrics artist title s))) (force a) s0 =
      (Inl OSError, emit (Ev_Open_Write (lrc_path_of path)) s0)"
    using assms(6,7) by (intro write_lrc_file_raise) (simp_all add: s0_def path_exists_def)
  then have "write_stage path a (the (fst (fetch_lyrics artist title s))) s0 =
      (Inl OSError, emit (Ev_Open_Write (lrc_path_of path)) s0)"
    using assms(5) by (simp add: write_stage_def)
  moreover have "\<not> prompt a \<or> yes_to_all s0"
    using assms(4) by (simp add: s0_def)
  ultimately have "process_file path a s =
      Some (Inl OSError, emit (Ev_Open_Write (lrc_path_of path)) s0)"
    using assms(3) by (simp add: process_file_fetch [OF assms(1,2)] prompt_stage_no_prompt s0_def)
  then show ?thesis by (auto simp: s0_def)
qed

theorem sidecar_failure_propagates_witness:
  "open_fails demo_readonly (lrc_path_of ''/m/a.flac'') \<and>
   \<not> path_exists demo_readonly (lrc_path_of ''/m/a.flac'') \<and>
   process_all demo_args [''/m/a.flac''] [] demo_readonly =
     Some (Inl OSError,
           emit (Ev_Open_Write ''/m/a.lrc'')
             (emit (Ev_Get ''Foo'' ''Bar'') (py_print ''Processing: /m/a.flac'' demo_readonly))) \<and>
   map_option fst (main demo_args demo_readonly) = Some (Inl OSError) \<and>
   map_option (\<lambda>r. filter is_write (trace (snd r))) (main demo_args demo_readonly) =
     Some [Ev_Open_Write ''/m/a.lrc''] \<and>
   exit_status (Inl OSError) = 1"
proof -
  let ?s = "py_print (''Processing: '' @ ''/m/a.flac'') demo_readonly"
  have t: "tagged ?s ''/m/a.flac'' demo_tags ''Foo'' ''Bar''"
    by (simp add: demo_readonly_def demo_defs vc_defs str_defs)
  have l: "lrc_path_of ''/m/a.flac'' = ''/m/a.lrc''"
    by (simp add: str_defs)
  have e: "\<not> path_exists ?s (lrc_path_of ''/m/a.flac'')"
    by (simp add: l) (simp add: demo_readonly_def demo_defs path_exists_def)
  have c: "\<not> vc_contains demo_tags ''LYRICS''"
    by (simp add: demo_defs vc_defs str_defs)
  have f: "truthy (fst (fetch_lyrics ''Foo'' ''Bar'' ?s))"
    by (simp add: demo_readonly_def demo_defs vc_defs fetch_lyrics_def)
  have p: "\<not> prompt demo_args \<or> yes_to_all ?s" and d: "\<not> dry_run demo_args"
    by (simp_all add: demo_defs)
  have o: "open_fails ?s (lrc_path_of ''/m/a.flac'')"
    by (simp add: l) (simp add: demo_readonly_def demo_defs)
  from sidecar_failure_propagates [OF t _ f p d disjI1 [OF e] o] e c l
  have "process_all demo_args [''/m/a.flac''] [] demo_readonly =
     Some (Inl OSError,
           emit (Ev_Open_Write ''/m/a.lrc'')
             (emit (Ev_Get ''Foo'' ''Bar'') (py_print ''Processing: /m/a.flac'' demo_readonly)))"
    by simp
  moreover have "candidates (os_walk ''/m'' (dirs demo_readonly ''/m'')) = [''/m/a.flac'']"
    by (simp add: demo_readonly_def demo_defs candidates_def is_flac_name_def str_defs)
  ultimately have "main demo_args demo_readonly =
     Some (Inl OSError,
           emit (Ev_Open_Write ''/m/a.lrc'')
             (emit (Ev_Get ''Foo'' ''Bar'') (py_print ''Processing: /m/a.flac'' demo_readonly)))"
    by (simp add: main_def Let_def demo_args_def) (simp add: demo_readonly_def demo_state_def)
  with \<open>process_all demo_args [''/m/a.flac''] [] demo_readonly = _\<close> e o show ?thesis
    by (simp add: exit_status_def l) (simp add: demo_readonly_def demo_defs path_exists_def)
qed


section \<open>The two write targets\<close>

text \<open>When the sidecar write returns, the outcome is decided as the two writers report,
  each from its own target: the sidecar is written unless it exists and \<open>force\<close> is off;
  the tag is written when the file parses, has no LYRICS entry or \<open>force\<close> is on, and can
  be saved.\<close>

lemma write_targets_independent:
  assumes "\<not> dry_run a" and "lrc_path_of path \<noteq> path"
    and "write_lrc_file path lyrics (force a) s = (Inr wrote_file, s1)"
  shows "write_stage path a lyrics s =
           (Inr (path, if wrote_file \<or> fst (embed_lyrics_flac path lyrics (force a) s)
                       then ''updated'' else ''skipped_existing''),
            snd (embed_lyrics_flac path lyrics (force a) s1)) \<and>
         wrote_file = (\<not> path_exists s (lrc_path_of path) \<or> force a) \<and>
         fst (embed_lyrics_flac path lyrics (force a) s) =
           (\<exists>audio. open_flac s path = Some audio \<and>
              (\<not> vc_contains audio ''LYRICS'' \<or> force a) \<and> \<not> save_fails s path)"
proof (intro conjI)
  from embed_after_sidecar [OF assms(2,3), of lyrics "force a"]
  show "write_stage path a lyrics s =
           (Inr (path, if wrote_file \<or> fst (embed_lyrics_flac path lyrics (force a) s)
                       then ''updated'' else ''skipped_existing''),
            snd (embed_lyrics_flac path lyrics (force a) s1))"
    using assms(1,3) by (simp add: write_stage_def case_prod_beta)
next
  from assms(3) show "wrote_file = (\<not> path_exists s (lrc_path_of path) \<or> force a)"
    by (auto simp: write_lrc_file_def open_write_def Let_def split: if_splits)
next
  show "fst (embed_lyrics_flac path lyrics (force a) s) =
           (\<exists>audio. open_flac s path = Some audio \<and>
              (\<not> vc_contains audio ''LYRICS'' \<or> force a) \<and> \<not> save_fails s path)"
    by (auto simp: embed_lyrics_flac_def flac_save_def split: option.splits)
qed

text \<open>
  Claim C9 says that both write targets are attempted independently and that the outcome
  is \<open>updated\<close> when either write succeeds and \<open>skipped_existing\<close> when neither does. That
  is what the code does whenever the sidecar write returns (see above). When it raises,
  the write stage ends with the exception: the state is the one the failed \<open>open\<close> left,
  so the embedded write has not been attempted, and there is no outcome.
\<close>

theorem sidecar_failure_blocks_embedded:
  assumes "\<not> dry_run a"
    and "\<not> path_exists s (lrc_path_of path) \<or> force a"
    and "open_fails s (lrc_path_of path)"
  shows "write_stage path a lyrics s =
           (Inl OSError, emit (Ev_Open_Write (lrc_path_of path)) s)"
  using assms by (simp add: write_stage_def write_lrc_file_raise)

theorem sidecar_failure_blocks_embedded_witness:
  "\<not> dry_run demo_args \<and>
   \<not> path_exists demo_readonly (lrc_path_of ''/m/a.flac'') \<and>
   open_fails demo_readonly (lrc_path_of ''/m/a.flac'') \<and>
   fst (embed_lyrics_flac ''/m/a.flac'' demo_lyrics (force demo_args) demo_readonly) \<and>
   write_stage ''/m/a.flac'' demo_args demo_lyrics demo_readonly =
     (Inl OSError, emit (Ev_Open_Write ''/m/a.lrc'') demo_readonly)"
proof -
  have l: "lrc_path_of ''/m/a.flac'' = ''/m/a.lrc''"
    by (simp add: str_defs)
  have d: "\<not> dry_run demo_args"
    by (simp add: demo_defs)
  have e: "\<not> path_exists demo_readonly (lrc_path_of ''/m/a.flac'')"
    by (simp add: l) (simp add: demo_readonly_def demo_defs path_exists_def)
  have o: "open_fails demo_readonly (lrc_path_of ''/m/a.flac'')"
    by (simp add: l) (simp add: demo_readonly_def demo_defs)
  have w: "fst (embed_lyrics_flac ''/m/a.flac'' demo_lyrics (force demo_args) demo_readonly)"
    by (simp add: embed_lyrics_flac_def flac_save_def demo_readonly_def demo_defs vc_defs
        str_defs)
  from sidecar_failure_blocks_embedded [OF d disjI1 [OF e] o, of demo_lyrics] d e o w l
  show ?thesis by simp
qed

section \<open>A root directory that does not exist\<close>

text \<open>
  Claim C1 says that a root directory that does not exist (or cannot be listed) makes the
  run fail with an \<open>InvalidDirectory\<close> error and a non-zero exit status. \<open>os.walk\<close> ignores
  the error of \<open>scandir\<close> and yields nothing, and \<open>main\<close> does not look at the directory
  itself: the run prints the summary header and ends with status 0.
\<close>

theorem missing_root_counterexample:
  "dirs demo_state ''/nope'' = No_Dir \<and>
   map_option fst (main (demo_args\<lparr>directory := ''/nope''\<rparr>) demo_state) = Some (Inr ()) \<and>
   map_option (\<lambda>r. exit_status (fst r)) (main (demo_args\<lparr>directory := ''/nope''\<rparr>) demo_state) =
     Some 0 \<and>
   map_option (\<lambda>r. trace (snd r)) (main (demo_args\<lparr>directory := ''/nope''\<rparr>) demo_state) =
     Some [Ev_Print summary_header]"
  by (simp add: main_def candidates_def write_log_def exit_status_def demo_defs py_print_def
      emit_def truthy_def summary_header_def)

text \<open>
  Claim C1, amended. If the root directory does not exist or cannot be listed, no file is
  processed and no error is raised for it: the run prints the summary header with no
  entries and writes the log file if one was asked for; when none was asked for, it ends
  normally, with exit status 0, and has changed no file.
\<close>

theorem missing_root_is_silent:
  assumes "dirs s (directory a) = No_Dir"
  shows "main a s =
           Some (write_log a [] (py_print summary_header (s\<lparr>yes_to_all := False\<rparr>))) \<and>
         (\<not> truthy (log_file a) \<longrightarrow>
            main a s = Some (Inr (), py_print summary_header (s\<lparr>yes_to_all := False\<rparr>)) \<and>
            map_option (\<lambda>r. exit_status (fst r)) (main a s) = Some 0 \<and>
            map_option (\<lambda>r. fs (snd r)) (main a s) = Some (fs s) \<and>
            map_option (\<lambda>r. trace (snd r)) (main a s) = Some (trace s @ [Ev_Print summary_header]))"
  using assms
  by (simp add: main_def candidates_def write_log_def exit_status_def summary_header_def)

theorem missing_root_is_silent_witness:
  "dirs demo_state (directory (demo_args\<lparr>directory := ''/nope''\<rparr>)) = No_Dir \<and>
   \<not> truthy (log_file (demo_args\<lparr>directory := ''/nope''\<rparr>)) \<and>
   main (demo_args\<lparr>directory := ''/nope''\<rparr>) demo_state =
     Some (Inr (), py_print summary_header (demo_state\<lparr>yes_to_all := False\<rparr>)) \<and>
   map_option (\<lambda>r. exit_status (fst r)) (main (demo_args\<lparr>directory := ''/nope''\<rparr>) demo_state) =
     Some 0"
proof -
  let ?a = "demo_args\<lparr>directory := ''/nope''\<rparr>"
  have n: "dirs demo_state (directory ?a) = No_Dir"
    by (simp add: demo_defs)
  have t: "\<not> truthy (log_file ?a)"
    by (simp add: demo_defs truthy_def)
  from missing_root_is_silent [OF n] t
  have "main ?a demo_state =
          Some (Inr (), py_print summary_header (demo_state\<lparr>yes_to_all := False\<rparr>)) \<and>
        map_option (\<lambda>r. exit_status (fst r)) (main ?a demo_state) = Some 0"
    by blast
  with n t show ?thesis
    by blast
qed

section \<open>An empty LYRICS tag\<close>

text \<open>
  Claim C3 says that the presence test for embedded lyrics holds only for a LYRICS field
  that is present and not empty, so that a file with an empty LYRICS field has no embedded
  lyrics and gets the embedded write without \<open>force\<close>. Both places test \<open>"LYRICS" in audio\<close>,
  which is true for an entry with an empty value: the file below is skipped early, and the
  writer reports "not written".
\<close>

theorem empty_lyrics_counterexample:
  "open_flac demo_empty_lyrics ''/m/a.flac'' = Some (demo_tags @ [(''LYRICS'', [])]) \<and>
   vc_values (demo_tags @ [(''LYRICS'', [])]) ''LYRICS'' = [[]] \<and>
   vc_contains (demo_tags @ [(''LYRICS'', [])]) ''LYRICS'' \<and>
   embed_lyrics_flac ''/m/a.flac'' demo_lyrics False demo_empty_lyrics =
     (False, demo_empty_lyrics) \<and>
   process_file ''/m/a.flac'' demo_args demo_empty_lyrics =
     Some (Inr (''/m/a.flac'', ''skipped_existing''), demo_empty_lyrics)"
  by (simp add: process_file_def embed_lyrics_flac_def demo_empty_lyrics_def demo_defs vc_defs
      str_defs Let_def)

text \<open>
  Claim C3, amended. The presence test treats the lyrics field as existing whenever a
  LYRICS entry is present, whatever its value, empty or not: for every file with such an
  entry the embedded write with \<open>force\<close> off reports "not written" and changes nothing, and
  with readable tags and \<open>force\<close> and \<open>prompt\<close> off the file is skipped early. Without
  \<open>force\<close> the embedded write goes ahead only when there is no LYRICS entry at all.
\<close>

theorem lyrics_presence_ignores_value:
  assumes "open_flac s path = Some audio"
  shows "((key, v) \<in> set audio \<and> lower key = ''lyrics'' \<longrightarrow>
            vc_contains audio ''LYRICS'' \<and>
            embed_lyrics_flac path lyrics False s = (False, s) \<and>
            (tagged s path audio artist title \<and> \<not> force a \<and> \<not> prompt a \<longrightarrow>
               process_file path a s = Some (Inr (path, ''skipped_existing''), s))) \<and>
         (fst (embed_lyrics_flac path lyrics False s) \<longrightarrow>
            \<not> (\<exists>key v. (key, v) \<in> set audio \<and> lower key = ''lyrics''))"
proof -
  have low: "lower ''LYRICS'' = ''lyrics''"
    by (simp add: lower_def lower_char_def)
  have c: "vc_contains audio ''LYRICS'' \<longleftrightarrow> (\<exists>key v. (key, v) \<in> set audio \<and> lower key = ''lyrics'')"
    by (force simp: vc_contains_def vc_values_def low filter_empty_conv)
  show ?thesis
  proof (intro conjI impI)
    assume h: "(key, v) \<in> set audio \<and> lower key = ''lyrics''"
    then show has: "vc_contains audio ''LYRICS''"
      using c by blast
    then show "embed_lyrics_flac path lyrics False s = (False, s)"
      using assms by (simp add: embed_lyrics_flac_skip)
    assume "tagged s path audio artist title \<and> \<not> force a \<and> \<not> prompt a"
    with has show "process_file path a s = Some (Inr (path, ''skipped_existing''), s)"
      using process_file_early_skip [of s path audio artist title a] by blast
  next
    assume "fst (embed_lyrics_flac path lyrics False s)"
    then have "\<not> vc_contains audio ''LYRICS''"
      using assms by (auto simp: embed_lyrics_flac_def)
    then show "\<not> (\<exists>key v. (key, v) \<in> set audio \<and> lower key = ''lyrics'')"
      using c by simp
  qed
qed

theorem lyrics_presence_ignores_value_witness:
  "open_flac demo_empty_lyrics ''/m/a.flac'' = Some (demo_tags @ [(''LYRICS'', [])]) \<and>
   (''LYRICS'', []) \<in> set (demo_tags @ [(''LYRICS'', [])]) \<and> lower ''LYRICS'' = ''lyrics'' \<and>
   tagged demo_empty_lyrics ''/m/a.flac'' (demo_tags @ [(''LYRICS'', [])]) ''Foo'' ''Bar'' \<and>
   \<not> force demo_args \<and> \<not> prompt demo_args \<and>
   vc_contains (demo_tags @ [(''LYRICS'', [])]) ''LYRICS'' \<and>
   embed_lyrics_flac ''/m/a.flac'' demo_lyrics False demo_empty_lyrics =
     (False, demo_empty_lyrics) \<and>
   process_file ''/m/a.flac'' demo_args demo_empty_lyrics =
     Some (Inr (''/m/a.flac'', ''skipped_existing''), demo_empty_lyrics)"
proof -
  let ?t = "demo_tags @ [(''LYRICS'', [])]"
  have o: "open_flac demo_empty_lyrics ''/m/a.flac'' = Some ?t"
    by (simp add: demo_empty_lyrics_def demo_defs open_flac_def)
  have m: "(''LYRICS'', []) \<in> set ?t" by simp
  have low: "lower ''LYRICS'' = ''lyrics''"
    by (simp add: lower_def lower_char_def)
  have t: "tagged demo_empty_lyrics ''/m/a.flac'' ?t ''Foo'' ''Bar''"
    by (simp add: demo_empty_lyrics_def demo_defs vc_defs str_defs)
  have f: "\<not> force demo_args" "\<not> prompt demo_args"
    by (simp_all add: demo_defs)
  from lyrics_presence_ignores_value
    [OF o, of "''LYRICS''" "[]" demo_lyrics "''Foo''" "''Bar''" demo_args] m low t f
  have "vc_contains ?t ''LYRICS'' \<and>
        embed_lyrics_flac ''/m/a.flac'' demo_lyrics False demo_empty_lyrics =
          (False, demo_empty_lyrics) \<and>
        process_file ''/m/a.flac'' demo_args demo_empty_lyrics =
          Some (Inr (''/m/a.flac'', ''skipped_existing''), demo_empty_lyrics)"
    by blast
  with o m low t f show ?thesis by simp
qed

end
